theory Spec2Isabelle
  imports Complex_Main "HOL-Library.Multiset"
begin

section \<open>Skyrock gaming revenue analysis (Jeux.py)\<close>

text \<open>
  A shallow embedding of the computational part of \<^verbatim>\<open>Jeux.py\<close>: the yearly records, the
  aggregate functions of \<^verbatim>\<open>SkyrockGamingAnalyzer\<close> and the scenario simulation of
  \<^verbatim>\<open>GamingScenarioSimulator\<close>.

  Python floats are modelled as \<^typ>\<open>real\<close>: arithmetic is exact, so binary rounding
  error is not part of the model, while the decimal rounding the program asks for
  (\<^verbatim>\<open>round(x, 2)\<close>) and the truncation of \<^verbatim>\<open>int(x)\<close> are.
  Python exceptions are values of type \<open>error\<close>; a function that can raise returns
  \<open>error + 'a\<close> with \<open>Inl\<close> for the exception.
\<close>

subsection \<open>Python primitives\<close>

datatype error = ValueError | KeyError | ZeroDivisionError

text \<open>A \<^verbatim>\<open>dict\<close> with integer keys: its items in insertion order.\<close>

type_synonym 'v dict = "(int \<times> 'v) list"

text \<open>\<^verbatim>\<open>d[k]\<close> raises \<^verbatim>\<open>KeyError\<close> on a missing key.\<close>

definition dict_get :: "'v dict \<Rightarrow> int \<Rightarrow> error + 'v" where
  "dict_get d k = (case map_of d k of None \<Rightarrow> Inl KeyError | Some v \<Rightarrow> Inr v)"


text \<open>
  \<^verbatim>\<open>d.copy()\<close> is a shallow copy: a new dict holding the same values. Where the values
  are references, the copy refers to the same objects.
\<close>

definition dict_copy :: "'v dict \<Rightarrow> 'v dict" where
  "dict_copy d = d"

text \<open>\<^verbatim>\<open>sum(xs)\<close> adds from the left, starting at 0.\<close>

definition py_sum :: "real list \<Rightarrow> real" where
  "py_sum xs = foldl (+) 0 xs"

text \<open>
  \<^verbatim>\<open>max(xs)\<close> and \<^verbatim>\<open>min(xs)\<close> raise \<^verbatim>\<open>ValueError\<close> on an empty sequence; otherwise they
  scan from the left and replace the current candidate only by a strictly better item.
\<close>

definition py_max :: "'a::linorder list \<Rightarrow> error + 'a" where
  "py_max xs = (case xs of [] \<Rightarrow> Inl ValueError
     | x # rest \<Rightarrow> Inr (fold (\<lambda>item best. if best < item then item else best) rest x))"

definition py_min :: "'a::linorder list \<Rightarrow> error + 'a" where
  "py_min xs = (case xs of [] \<Rightarrow> Inl ValueError
     | x # rest \<Rightarrow> Inr (fold (\<lambda>item best. if item < best then item else best) rest x))"



text \<open>Float division raises \<^verbatim>\<open>ZeroDivisionError\<close> on a zero divisor.\<close>

definition py_div :: "real \<Rightarrow> real \<Rightarrow> error + real" where
  "py_div a b = (if b = 0 then Inl ZeroDivisionError else Inr (a / b))"

text \<open>\<^verbatim>\<open>int(x)\<close> on a float truncates towards zero.\<close>

definition py_int :: "real \<Rightarrow> int" where
  "py_int x = (if 0 \<le> x then \<lfloor>x\<rfloor> else \<lceil>x\<rceil>)"

text \<open>
  \<^verbatim>\<open>round(x, 2)\<close>: the nearest multiple of 0.01, a tie going to the even multiple.
\<close>

definition round_half_even :: "real \<Rightarrow> int" where
  "round_half_even x =
     (let f = \<lfloor>x\<rfloor>; d = x - of_int f
      in if d < 1 / 2 then f else if 1 / 2 < d then f + 1
         else if even f then f else f + 1)"

definition py_round2 :: "real \<Rightarrow> real" where
  "py_round2 x = of_int (round_half_even (x * 100)) / 100"

text \<open>\<^verbatim>\<open>str(n)\<close> for an integer, as the f-string of the period label renders it.\<close>

definition digit_char :: "nat \<Rightarrow> char" where
  "digit_char n = ''0123456789'' ! n"

function str_nat :: "nat \<Rightarrow> string" where
  "str_nat n = (if n < 10 then [digit_char n] else str_nat (n div 10) @ [digit_char (n mod 10)])"
  by pat_completeness auto
termination
  by (relation "measure id") auto

declare str_nat.simps [simp del]

definition str_int :: "int \<Rightarrow> string" where
  "str_int i = (if i < 0 then CHR ''-'' # str_nat (nat (- i)) else str_nat (nat i))"

subsection \<open>The data model\<close>

text \<open>One year's entry of \<^verbatim>\<open>gaming_revenue\<close>: the inner dict of the source.\<close>

record year_data =
  revenue :: real
  players :: int
  bets :: real
  type :: string

text \<open>
  The inner dicts are mutable objects that the outer dict refers to. The heap maps the
  address of each inner dict to its current contents; the outer dict maps a year to an
  address. Reading the dataset through the heap gives its records.
\<close>

type_synonym addr = nat
type_synonym heap = "addr \<Rightarrow> year_data"

definition resolve :: "heap \<Rightarrow> addr dict \<Rightarrow> year_data dict" where
  "resolve h d = map (\<lambda>(year, a). (year, h a)) d"

text \<open>Evaluating a dict literal allocates one fresh inner dict per entry.\<close>

fun alloc :: "heap \<Rightarrow> addr \<Rightarrow> year_data dict \<Rightarrow> heap \<times> addr dict" where
  "alloc h n [] = (h, [])"
| "alloc h n ((year, r) # rest) =
     (case alloc (h(n := r)) (Suc n) rest of (h', d) \<Rightarrow> (h', (year, n) # d))"

definition gaming_revenue :: "year_data dict" where
  "gaming_revenue =
    [(2010, \<lparr>revenue = 0.8, players = 15000, bets = 12.5, type = ''Lancement''\<rparr>),
     (2011, \<lparr>revenue = 1.5, players = 28000, bets = 25.0, type = ''Croissance''\<rparr>),
     (2012, \<lparr>revenue = 2.2, players = 42000, bets = 38.5, type = ''Croissance''\<rparr>),
     (2013, \<lparr>revenue = 2.8, players = 55000, bets = 52.0, type = ''Croissance''\<rparr>),
     (2014, \<lparr>revenue = 3.5, players = 68000, bets = 68.5, type = ''Pic''\<rparr>),
     (2015, \<lparr>revenue = 4.2, players = 75000, bets = 85.0, type = ''Pic''\<rparr>),
     (2016, \<lparr>revenue = 4.0, players = 72000, bets = 78.0, type = ''Stabilisation''\<rparr>),
     (2017, \<lparr>revenue = 3.8, players = 70000, bets = 72.5, type = ''Stabilisation''\<rparr>),
     (2018, \<lparr>revenue = 3.2, players = 65000, bets = 65.0, type = ''Declin''\<rparr>),
     (2019, \<lparr>revenue = 2.5, players = 55000, bets = 55.0, type = ''Declin''\<rparr>),
     (2020, \<lparr>revenue = 1.8, players = 40000, bets = 42.5, type = ''COVID''\<rparr>),
     (2021, \<lparr>revenue = 1.2, players = 30000, bets = 35.0, type = ''Declin''\<rparr>),
     (2022, \<lparr>revenue = 0.9, players = 25000, bets = 28.5, type = ''Residuel''\<rparr>),
     (2023, \<lparr>revenue = 0.7, players = 22000, bets = 25.0, type = ''Residuel''\<rparr>)]"

text \<open>The two-record dataset of the specification's worked example.\<close>

definition example_data :: "year_data dict" where
  "example_data =
    [(2010, \<lparr>revenue = 0.8, players = 15000, bets = 12.5, type = ''Lancement''\<rparr>),
     (2011, \<lparr>revenue = 1.5, players = 28000, bets = 25.0, type = ''Croissance''\<rparr>)]"

subsection \<open>GamingScenarioSimulator\<close>

text \<open>
  \<^verbatim>\<open>__init__\<close> keeps a shallow copy of the analyzer's \<^verbatim>\<open>gaming_data\<close>.
\<close>

definition simulator_init :: "addr dict \<Rightarrow> addr dict" where
  "simulator_init gaming_data = dict_copy gaming_data"

text \<open>
  The three assignments of the loop body write into the inner dict that
  \<^verbatim>\<open>simulated_data[year]\<close> refers to.
\<close>

definition scale_record :: "year_data \<Rightarrow> real \<Rightarrow> year_data" where
  "scale_record r multiplier =
     r\<lparr>revenue := revenue r * multiplier,
       players := py_int (of_int (players r) * multiplier),
       bets := bets r * multiplier\<rparr>"

fun apply_multipliers :: "addr dict \<Rightarrow> heap \<Rightarrow> real dict \<Rightarrow> heap" where
  "apply_multipliers simulated_data h [] = h"
| "apply_multipliers simulated_data h ((year, multiplier) # rest) =
     (case map_of simulated_data year of
        None \<Rightarrow> apply_multipliers simulated_data h rest
      | Some a \<Rightarrow>
          apply_multipliers simulated_data (h(a := scale_record (h a) multiplier)) rest)"

text \<open>
  \<^verbatim>\<open>simulate_scenario\<close> returns \<^verbatim>\<open>simulated_data\<close>; the heap after the call is returned
  with it. \<^verbatim>\<open>parameters\<close> is a dict from names to multiplier dicts, read with
  \<^verbatim>\<open>.get('revenue_multipliers', {})\<close>.
\<close>

definition simulate_scenario ::
  "addr dict \<Rightarrow> heap \<Rightarrow> string \<Rightarrow> (string \<rightharpoonup> real dict) \<Rightarrow> heap \<times> addr dict" where
  "simulate_scenario base_data h scenario_name parameters =
     (let simulated_data = dict_copy base_data;
          multipliers = (case parameters ''revenue_multipliers'' of
                           None \<Rightarrow> [] | Some m \<Rightarrow> m)
      in (apply_multipliers simulated_data h multipliers, simulated_data))"

subsection \<open>SkyrockGamingAnalyzer\<close>

text \<open>
  The analyzer's methods only read \<^verbatim>\<open>self.gaming_data\<close>; they are functions of the
  dataset as read through the heap (\<open>resolve\<close>).
\<close>

record cumulative =
  revenue_total :: real
  bets_total :: real
  players_max :: int
  revenue_moyen_an :: real
  periode :: string

text \<open>
  \<^verbatim>\<open>calculate_cumulative_revenue\<close>: the three aggregates first, then the entries of the
  returned dict in the order the source evaluates them.
\<close>

definition calculate_cumulative_revenue :: "year_data dict \<Rightarrow> error + cumulative" where
  "calculate_cumulative_revenue gaming_data =
     (let total_revenue = py_sum (map (\<lambda>(year, data). revenue data) gaming_data);
          total_bets = py_sum (map (\<lambda>(year, data). bets data) gaming_data)
      in case py_max (map (\<lambda>(year, data). players data) gaming_data) of
           Inl e \<Rightarrow> Inl e
         | Inr total_players \<Rightarrow>
             (case py_div total_revenue (of_nat (length gaming_data)) of
                Inl e \<Rightarrow> Inl e
              | Inr moyen \<Rightarrow>
                  (case py_min (map fst gaming_data) of
                     Inl e \<Rightarrow> Inl e
                   | Inr first_year \<Rightarrow>
                       (case py_max (map fst gaming_data) of
                          Inl e \<Rightarrow> Inl e
                        | Inr last_year \<Rightarrow>
                            Inr \<lparr>revenue_total = py_round2 total_revenue,
                                 bets_total = py_round2 total_bets,
                                 players_max = total_players,
                                 revenue_moyen_an = py_round2 moyen,
                                 periode = str_int first_year @ ''-'' @ str_int last_year\<rparr>))))"









definition growth :: "year_data dict \<Rightarrow> error + real" where
  "growth gaming_data =
     (case py_min (map fst gaming_data) of
        Inl e \<Rightarrow> Inl e
      | Inr first_year \<Rightarrow>
          (case py_max (map fst gaming_data) of
             Inl e \<Rightarrow> Inl e
           | Inr last_year \<Rightarrow>
               (case dict_get gaming_data last_year of
                  Inl e \<Rightarrow> Inl e
                | Inr last_data \<Rightarrow>
                    (case dict_get gaming_data first_year of
                       Inl e \<Rightarrow> Inl e
                     | Inr first_data \<Rightarrow>
                         (case py_div (revenue last_data - revenue first_data)
                                 (revenue first_data) of
                            Inl e \<Rightarrow> Inl e
                          | Inr q \<Rightarrow> Inr (q * 100))))))"

subsection \<open>The main program's scenario\<close>

text \<open>
  The heap before the analyzer is built holds nothing of interest; \<^verbatim>\<open>__init__\<close> allocates
  the fourteen records of \<open>gaming_revenue\<close> in it. The scenario is the one the script
  runs.
\<close>

definition empty_heap :: heap where
  "empty_heap = (\<lambda>a. \<lparr>revenue = 0, players = 0, bets = 0, type = ''''\<rparr>)"

definition scenario_investissement :: "string \<rightharpoonup> real dict" where
  "scenario_investissement =
     [''revenue_multipliers'' \<mapsto> [(2014, 1.5), (2015, 1.5), (2016, 1.3), (2017, 1.3)]]"

section \<open>Properties\<close>

subsection \<open>The Python primitives in terms of the library\<close>

lemma fold_max_eq:
  "fold (\<lambda>item best. if best < item then item else best) xs (x::'a::linorder) = Max (set (x # xs))"
proof -
  have "(\<lambda>item best::'a. if best < item then item else best) = max"
    by (auto simp: fun_eq_iff max_def)
  then show ?thesis using Max.set_eq_fold [of x xs] by simp
qed

lemma fold_min_eq:
  "fold (\<lambda>item best. if item < best then item else best) xs (x::'a::linorder) = Min (set (x # xs))"
proof -
  have "(\<lambda>item best::'a. if item < best then item else best) = min"
    by (auto simp: fun_eq_iff min_def)
  then show ?thesis using Min.set_eq_fold [of x xs] by simp
qed

lemma py_max_nonempty: "xs \<noteq> [] \<Longrightarrow> py_max xs = Inr (Max (set xs))"
  by (cases xs) (simp_all add: py_max_def fold_max_eq)

lemma py_min_nonempty: "xs \<noteq> [] \<Longrightarrow> py_min xs = Inr (Min (set xs))"
  by (cases xs) (simp_all add: py_min_def fold_min_eq)


subsection \<open>The empty dataset\<close>

text \<open>
  C4: on the empty dataset \<^verbatim>\<open>calculate_cumulative_revenue\<close> raises and returns nothing:
  \<^verbatim>\<open>max\<close> of the empty list of player counts raises \<^verbatim>\<open>ValueError\<close> before the average is
  divided, so no division by zero is reached. On every non-empty dataset it returns a
  complete result. The specification's EmptyDatasetError is this \<^verbatim>\<open>ValueError\<close>.
\<close>

theorem cumulative_empty_fails:
  "calculate_cumulative_revenue [] = Inl ValueError \<and>
   (gaming_data \<noteq> [] \<longrightarrow> (\<exists>r. calculate_cumulative_revenue gaming_data = Inr r))"
proof (intro conjI impI)
  show "calculate_cumulative_revenue [] = Inl ValueError"
    by (simp add: calculate_cumulative_revenue_def py_max_def)
next
  assume ne: "gaming_data \<noteq> []"
  then show "\<exists>r. calculate_cumulative_revenue gaming_data = Inr r"
    unfolding calculate_cumulative_revenue_def Let_def
    by (simp add: py_max_nonempty py_min_nonempty py_div_def)
qed

theorem cumulative_empty_fails_witness:
  "example_data \<noteq> [] \<and> (\<exists>r. calculate_cumulative_revenue example_data = Inr r)"
  using cumulative_empty_fails [of example_data] by (simp add: example_data_def)

subsection \<open>Scenario simulation\<close>

lemma apply_multipliers_filter:
  "apply_multipliers sd h (filter (\<lambda>(year, m). year \<in> fst ` set sd) ms) =
   apply_multipliers sd h ms"
proof (induction ms arbitrary: h)
  case Nil
  show ?case by simp
next
  case (Cons ym ms)
  obtain year m where ym: "ym = (year, m)" by (cases ym)
  show ?case
  proof (cases "map_of sd year")
    case None
    then have "year \<notin> fst ` set sd" by (simp add: map_of_eq_None_iff)
    with None Cons.IH ym show ?thesis by simp
  next
    case (Some a)
    then have "year \<in> fst ` set sd" by (force dest: map_of_SomeD)
    with Some ym have
      "apply_multipliers sd h (filter (\<lambda>(year, m). year \<in> fst ` set sd) (ym # ms)) =
       apply_multipliers sd (h(a := scale_record (h a) m))
         (filter (\<lambda>(year, m). year \<in> fst ` set sd) ms)"
      by simp
    also have "\<dots> = apply_multipliers sd (h(a := scale_record (h a) m)) ms"
      by (rule Cons.IH)
    also have "\<dots> = apply_multipliers sd h (ym # ms)"
      using Some ym by simp
    finally show ?thesis .
  qed
qed

lemma map_fst_resolve: "map fst (resolve h d) = map fst d"
  by (induction d) (auto simp: resolve_def)

text \<open>
  C10: a multiplier for a year that the dataset does not have is ignored. The returned
  dataset has the years of the input, in the same order, whatever the multipliers are;
  the function has no failing branch; and dropping every multiplier whose year is not
  in the dataset changes neither the returned dataset nor the heap.
\<close>

theorem simulate_scenario_ignores_unknown_years:
  "map fst (snd (simulate_scenario base_data h scenario_name parameters)) = map fst base_data \<and>
   map fst (resolve (fst (simulate_scenario base_data h scenario_name parameters))
              (snd (simulate_scenario base_data h scenario_name parameters))) = map fst base_data \<and>
   simulate_scenario base_data h scenario_name
     [''revenue_multipliers'' \<mapsto> filter (\<lambda>(year, m). year \<in> fst ` set base_data) ms]
   = simulate_scenario base_data h scenario_name [''revenue_multipliers'' \<mapsto> ms]"
  by (simp add: map_fst_resolve simulate_scenario_def dict_copy_def apply_multipliers_filter)

text \<open>
  C1 (the code departs from it): the two \<^verbatim>\<open>copy()\<close> calls are shallow, so
  \<^verbatim>\<open>simulated_data[year]\<close> is the very record the analyzer's \<^verbatim>\<open>gaming_data[year]\<close> refers
  to. After the script's scenario, the analyzer's own 2014 record has revenue 5.25,
  102000 players and 102.75 wagered instead of 3.5, 68000 and 68.5; its cumulative
  revenue reads 39.29 instead of 33.1, which is also the scenario's total, so the
  difference the script prints is zero.
\<close>

theorem simulate_scenario_mutates_original:
  "(case alloc empty_heap 0 gaming_revenue of
      (h, gaming_data) \<Rightarrow>
        (case simulate_scenario (simulator_init gaming_data) h ''Investissement''
                scenario_investissement of
           (h', scenario_data) \<Rightarrow>
             (dict_get (resolve h gaming_data) 2014,
              dict_get (resolve h' gaming_data) 2014,
              map_sum id revenue_total (calculate_cumulative_revenue (resolve h gaming_data)),
              map_sum id revenue_total (calculate_cumulative_revenue (resolve h' gaming_data)),
              py_sum (map (\<lambda>(year, data). revenue data) (resolve h' scenario_data)))))
   = (Inr \<lparr>revenue = 3.5, players = 68000, bets = 68.5, type = ''Pic''\<rparr>,
      Inr \<lparr>revenue = 5.25, players = 102000, bets = 102.75, type = ''Pic''\<rparr>,
      Inr 33.1, Inr 39.29, 39.29)"
  by code_simp

subsection \<open>What a scenario does to the records\<close>









subsection \<open>Profit estimates\<close>










subsection \<open>Parameters out of range\<close>




subsection \<open>Cumulative totals\<close>






subsection \<open>Growth between the first and the last year\<close>

text \<open>
  C6: with the records of the smallest and the largest year of a non-empty dataset at
  hand, the growth is (last revenue - first revenue) / first revenue * 100 when the
  first revenue is not zero, and the division raises \<^verbatim>\<open>ZeroDivisionError\<close> (the
  specification's DivisionByZeroError) when it is zero. On the two-record example the
  growth is 87.5.
\<close>

theorem growth_rate:
  assumes "map_of gaming_data (Min (fst ` set gaming_data)) = Some first_data"
    and "map_of gaming_data (Max (fst ` set gaming_data)) = Some last_data"
  shows "(revenue first_data \<noteq> 0 \<longrightarrow>
            growth gaming_data =
              Inr ((revenue last_data - revenue first_data) / revenue first_data * 100)) \<and>
         (revenue first_data = 0 \<longrightarrow> growth gaming_data = Inl ZeroDivisionError)"
proof -
  from assms(1) have "gaming_data \<noteq> []" by auto
  then have "map fst gaming_data \<noteq> []" by simp
  then have "py_min (map fst gaming_data) = Inr (Min (fst ` set gaming_data))"
    and "py_max (map fst gaming_data) = Inr (Max (fst ` set gaming_data))"
    by (simp_all add: py_min_nonempty py_max_nonempty)
  with assms show ?thesis
    by (simp add: growth_def dict_get_def py_div_def)
qed

theorem growth_rate_witness:
  "growth example_data = Inr 87.5 \<and>
   growth [(2010, \<lparr>revenue = 0, players = 0, bets = 0, type = ''Lancement''\<rparr>),
           (2011, \<lparr>revenue = 1.5, players = 28000, bets = 25, type = ''Croissance''\<rparr>)]
     = Inl ZeroDivisionError"
  using growth_rate [of example_data
      "\<lparr>revenue = 0.8, players = 15000, bets = 12.5, type = ''Lancement''\<rparr>"
      "\<lparr>revenue = 1.5, players = 28000, bets = 25, type = ''Croissance''\<rparr>"]
    growth_rate [of "[(2010, \<lparr>revenue = 0, players = 0, bets = 0, type = ''Lancement''\<rparr>),
           (2011, \<lparr>revenue = 1.5, players = 28000, bets = 25, type = ''Croissance''\<rparr>)]"
      "\<lparr>revenue = 0, players = 0, bets = 0, type = ''Lancement''\<rparr>"
      "\<lparr>revenue = 1.5, players = 28000, bets = 25, type = ''Croissance''\<rparr>"]
  by (simp add: example_data_def)

subsection \<open>Market share\<close>






subsection \<open>Best and worst year\<close>








end
